theory Spec2Isabelle
  imports Complex_Main
begin

section \<open>The snake game of SnakeGame.tsx\<close>

text \<open>
  The game logic of the \<^verbatim>\<open>SnakeGame\<close> component: the five pieces of React state
  (\<^verbatim>\<open>snake\<close>, \<^verbatim>\<open>direction\<close>, \<^verbatim>\<open>food\<close>, \<^verbatim>\<open>score\<close>, \<^verbatim>\<open>gameOver\<close>) are one record that
  every callback takes and returns; one call of a callback, together with the state
  updates it queues, is one step. JavaScript numbers are exact here: grid coordinates and
  the score are integers, the component's props and the values of \<^verbatim>\<open>Math.random()\<close> are
  rationals. The component divides by \<^verbatim>\<open>gridSize\<close>; a \<^verbatim>\<open>gridSize\<close> of zero (an infinite
  or undefined quotient in JavaScript) is outside this model.
\<close>

subsection \<open>Data\<close>

record Coordinate =
  x :: int
  y :: int

datatype Direction = UP | DOWN | LEFT | RIGHT

record GameState =
  snake :: "Coordinate list"
  food :: Coordinate
  direction :: Direction
  score :: int
  gameOver :: bool

record SnakeGameProps =
  width :: rat
  height :: rat
  gridSize :: rat

text \<open>The props the \<^verbatim>\<open>App\<close> component passes, which are the defaults as well.\<close>

definition defaultProps :: SnakeGameProps where
  "defaultProps = \<lparr>width = 400, height = 400, gridSize = 20\<rparr>"

subsection \<open>initGame\<close>

text \<open>
  \<^verbatim>\<open>initGame\<close> sets all five pieces of state to literals; they are the literals of the
  \<^verbatim>\<open>useState\<close> calls too, so the state of the first render is \<open>initGame\<close> of anything.
\<close>

definition initGame :: "GameState \<Rightarrow> GameState" where
  "initGame s =
     s\<lparr>snake := [\<lparr>x = 8, y = 10\<rparr>, \<lparr>x = 7, y = 10\<rparr>, \<lparr>x = 6, y = 10\<rparr>],
       direction := RIGHT,
       food := \<lparr>x = 13, y = 10\<rparr>,
       score := 0,
       gameOver := False\<rparr>"

definition initialState :: GameState where
  "initialState =
     \<lparr>snake = [\<lparr>x = 8, y = 10\<rparr>, \<lparr>x = 7, y = 10\<rparr>, \<lparr>x = 6, y = 10\<rparr>],
      food = \<lparr>x = 13, y = 10\<rparr>,
      direction = RIGHT,
      score = 0,
      gameOver = False\<rparr>"

subsection \<open>spawnFood\<close>

text \<open>
  The loop of \<^verbatim>\<open>spawnFood\<close> draws two random numbers per round, for \<^verbatim>\<open>x\<close> and then for
  \<^verbatim>\<open>y\<close>, and leaves at the first candidate that is on no segment. The draws are an
  argument: one pair per round. The loop has no bound, so a list of draws that ends
  before a free cell is found gives \<open>None\<close>: the call has not returned.
\<close>

fun spawnFood :: "SnakeGameProps \<Rightarrow> Coordinate list \<Rightarrow> (rat \<times> rat) list \<Rightarrow> Coordinate option" where
  "spawnFood p snakePositions [] = None"
| "spawnFood p snakePositions ((r1, r2) # rs) =
     (let newFood = \<lparr>x = \<lfloor>r1 * (width p / gridSize p)\<rfloor>,
                     y = \<lfloor>r2 * (height p / gridSize p)\<rfloor>\<rparr>
      in if \<not> list_ex (\<lambda>segment. x segment = x newFood \<and> y segment = y newFood) snakePositions
         then Some newFood
         else spawnFood p snakePositions rs)"

subsection \<open>checkCollision\<close>

text \<open>The loop over the indices from 1 on is the test of every element but the first.\<close>

definition checkCollision :: "SnakeGameProps \<Rightarrow> Coordinate \<Rightarrow> Coordinate list \<Rightarrow> bool" where
  "checkCollision p head snakePositions =
     (if of_int (x head) < (0::rat) \<or>
         of_int (x head) \<ge> width p / gridSize p \<or>
         of_int (y head) < (0::rat) \<or>
         of_int (y head) \<ge> height p / gridSize p
      then True
      else list_ex (\<lambda>segment. x segment = x head \<and> y segment = y head) (drop 1 snakePositions))"

subsection \<open>moveSnake\<close>

text \<open>The \<^verbatim>\<open>switch\<close> on the direction, applied to a copy of the head.\<close>

definition moveHead :: "Direction \<Rightarrow> Coordinate \<Rightarrow> Coordinate" where
  "moveHead d head =
     (case d of
        UP \<Rightarrow> head\<lparr>y := y head - 1\<rparr>
      | DOWN \<Rightarrow> head\<lparr>y := y head + 1\<rparr>
      | LEFT \<Rightarrow> head\<lparr>x := x head - 1\<rparr>
      | RIGHT \<Rightarrow> head\<lparr>x := x head + 1\<rparr>)"

text \<open>
  One call of \<^verbatim>\<open>moveSnake\<close>, the tick of the game. The state written is the one React
  commits after the call: \<^verbatim>\<open>setSnake(newSnake)\<close> runs on every path that passes the first
  line, \<^verbatim>\<open>setScore\<close> and \<^verbatim>\<open>setFood\<close> when the food was reached, \<^verbatim>\<open>setGameOver(true)\<close>
  when \<^verbatim>\<open>checkCollision\<close> says so. A call in which \<^verbatim>\<open>spawnFood\<close> does not return
  commits nothing and is \<open>None\<close>.

  On an empty \<^verbatim>\<open>snake\<close> array JavaScript raises nothing: \<^verbatim>\<open>newSnake[0]\<close> is
  \<^verbatim>\<open>undefined\<close>, its spread copy is an empty object, the moved component is \<^verbatim>\<open>NaN\<close>,
  every comparison with it is false, so the new element is popped again, no collision
  is found and \<^verbatim>\<open>setSnake([])\<close> leaves the state as it was.
\<close>

definition moveSnake :: "SnakeGameProps \<Rightarrow> (rat \<times> rat) list \<Rightarrow> GameState \<Rightarrow> GameState option" where
  "moveSnake p rs s =
     (if gameOver s then Some s
      else case snake s of
        [] \<Rightarrow> Some s
      | head # _ \<Rightarrow>
          (let newHead = moveHead (direction s) head;
               newSnake = newHead # snake s
           in if x newHead = x (food s) \<and> y newHead = y (food s)
              then (case spawnFood p newSnake rs of
                      None \<Rightarrow> None
                    | Some newFood \<Rightarrow>
                        Some (s\<lparr>score := score s + 1,
                                food := newFood,
                                gameOver := (if checkCollision p newHead newSnake then True else gameOver s),
                                snake := newSnake\<rparr>))
              else Some (s\<lparr>gameOver := (if checkCollision p newHead (butlast newSnake) then True else gameOver s),
                           snake := butlast newSnake\<rparr>)))"

subsection \<open>handleKeyDown\<close>

definition handleKeyDown :: "string \<Rightarrow> GameState \<Rightarrow> GameState" where
  "handleKeyDown key s =
     (if gameOver s then (if key = ''Enter'' then initGame s else s)
      else if key = ''ArrowUp'' then (if direction s \<noteq> DOWN then s\<lparr>direction := UP\<rparr> else s)
      else if key = ''ArrowDown'' then (if direction s \<noteq> UP then s\<lparr>direction := DOWN\<rparr> else s)
      else if key = ''ArrowLeft'' then (if direction s \<noteq> RIGHT then s\<lparr>direction := LEFT\<rparr> else s)
      else if key = ''ArrowRight'' then (if direction s \<noteq> LEFT then s\<lparr>direction := RIGHT\<rparr> else s)
      else s)"



subsection \<open>Runs\<close>

text \<open>
  What happens to the component: the interval timer calls \<^verbatim>\<open>moveSnake\<close> (with the draws
  that call consumes), the window delivers a \<^verbatim>\<open>keydown\<close>. A run stops without a state
  at a tick that does not return.
\<close>

datatype event = Tick "(rat \<times> rat) list" | KeyDown string

fun fire :: "SnakeGameProps \<Rightarrow> event \<Rightarrow> GameState \<Rightarrow> GameState option" where
  "fire p (Tick rs) s = moveSnake p rs s"
| "fire p (KeyDown key) s = Some (handleKeyDown key s)"

fun run :: "SnakeGameProps \<Rightarrow> event list \<Rightarrow> GameState \<Rightarrow> GameState option" where
  "run p [] s = Some s"
| "run p (e # es) s = (case fire p e s of None \<Rightarrow> None | Some s' \<Rightarrow> run p es s')"

text \<open>\<^verbatim>\<open>Math.random()\<close> returns a number from 0 up to, not including, 1.\<close>

definition unitDraws :: "(rat \<times> rat) list \<Rightarrow> bool" where
  "unitDraws rs = list_all (\<lambda>(r1, r2). 0 \<le> r1 \<and> r1 < 1 \<and> 0 \<le> r2 \<and> r2 < 1) rs"

fun unitEvent :: "event \<Rightarrow> bool" where
  "unitEvent (Tick rs) = unitDraws rs"
| "unitEvent (KeyDown key) = True"




text \<open>A cell of the grid: both components within the bounds \<^verbatim>\<open>checkCollision\<close> tests.\<close>

definition inGrid :: "SnakeGameProps \<Rightarrow> Coordinate \<Rightarrow> bool" where
  "inGrid p c =
     ((0::rat) \<le> of_int (x c) \<and> of_int (x c) < width p / gridSize p \<and>
      (0::rat) \<le> of_int (y c) \<and> of_int (y c) < height p / gridSize p)"

section \<open>Facts about the callbacks\<close>

text \<open>Two coordinates are equal when \<^verbatim>\<open>===\<close> holds of both components.\<close>

lemma coord_eq: "(x a = x b \<and> y a = y b) = (a = b)" for a b :: Coordinate
  by auto

lemma onSnake:
  "list_ex (\<lambda>segment. x segment = x c \<and> y segment = y c) ps = (c \<in> set ps)" for c :: Coordinate
  by (simp add: list_ex_iff coord_eq)

lemma checkCollision_cons:
  "checkCollision p c (c' # body) = (\<not> inGrid p c \<or> c \<in> set body)"
  by (auto simp add: checkCollision_def inGrid_def onSnake not_le not_less)

text \<open>\<^verbatim>\<open>moveSnake\<close> by cases: game over, no food at the new head, food at the new head.\<close>

lemma moveSnake_over: "gameOver s \<Longrightarrow> moveSnake p rs s = Some s"
  by (simp add: moveSnake_def)

lemma moveSnake_plain:
  assumes "\<not> gameOver s" and "snake s = head # rest" and "moveHead (direction s) head \<noteq> food s"
  shows "moveSnake p rs s =
    Some (s\<lparr>gameOver := \<not> inGrid p (moveHead (direction s) head) \<or> moveHead (direction s) head \<in> set (butlast (snake s)),
            snake := moveHead (direction s) head # butlast (snake s)\<rparr>)"
  using assms by (simp add: moveSnake_def Let_def coord_eq checkCollision_cons)

lemma moveSnake_eat:
  assumes "\<not> gameOver s" and "snake s = head # rest" and "moveHead (direction s) head = food s"
  shows "moveSnake p rs s =
    map_option (\<lambda>newFood. s\<lparr>score := score s + 1, food := newFood,
                     gameOver := \<not> inGrid p (food s) \<or> food s \<in> set (snake s),
                     snake := food s # snake s\<rparr>)
      (spawnFood p (food s # snake s) rs)"
  using assms by (simp add: moveSnake_def Let_def coord_eq checkCollision_cons split: option.split)

text \<open>\<^verbatim>\<open>spawnFood\<close> is a search for the first free candidate; candidates of draws in [0, 1) are cells.\<close>

lemma spawnFood_find:
  "spawnFood p ps rs =
     find (\<lambda>c. c \<notin> set ps)
       (map (\<lambda>(r1, r2). \<lparr>x = \<lfloor>r1 * (width p / gridSize p)\<rfloor>, y = \<lfloor>r2 * (height p / gridSize p)\<rfloor>\<rparr>) rs)"
  by (induction rs) (auto simp add: Let_def onSnake)

lemma spawnFood_free: "spawnFood p ps rs = Some c \<Longrightarrow> c \<notin> set ps"
  by (auto simp add: spawnFood_find find_Some_iff)

lemma spawnFood_inGrid:
  assumes "unitDraws rs" and "0 < width p / gridSize p" and "0 < height p / gridSize p"
    and "spawnFood p ps rs = Some c"
  shows "inGrid p c"
  using assms
proof (induction rs)
  case Nil
  then show ?case by simp
next
  case (Cons r rs)
  obtain r1 r2 where r: "r = (r1, r2)" by (cases r)
  from Cons.prems(1) r have u: "0 \<le> r1" "r1 < 1" "0 \<le> r2" "r2 < 1" and rest: "unitDraws rs"
    by (simp_all add: unitDraws_def)
  have fl: "0 \<le> \<lfloor>q * b\<rfloor> \<and> of_int \<lfloor>q * b\<rfloor> < b" if "0 \<le> q" "q < 1" "0 < b" for q b :: rat
  proof
    from that show "0 \<le> \<lfloor>q * b\<rfloor>" by simp
    have "of_int \<lfloor>q * b\<rfloor> \<le> q * b" by simp
    also from that have "q * b < b" by simp
    finally show "of_int \<lfloor>q * b\<rfloor> < b" .
  qed
  show ?case
  proof (cases "spawnFood p ps (r # rs) = spawnFood p ps rs")
    case True
    with Cons rest show ?thesis by simp
  next
    case False
    with r Cons.prems(4) have "c = \<lparr>x = \<lfloor>r1 * (width p / gridSize p)\<rfloor>, y = \<lfloor>r2 * (height p / gridSize p)\<rfloor>\<rparr>"
      by (auto simp add: Let_def split: if_splits)
    with fl[OF u(1,2) Cons.prems(2)] fl[OF u(3,4) Cons.prems(3)] show ?thesis
      by (simp add: inGrid_def)
  qed
qed

text \<open>A finished game: nothing but the Enter key changes the state.\<close>

lemma handleKeyDown_over: "gameOver s \<Longrightarrow> key \<noteq> ''Enter'' \<Longrightarrow> handleKeyDown key s = s"
  by (simp add: handleKeyDown_def)

lemma run_over:
  "gameOver s \<Longrightarrow> KeyDown ''Enter'' \<notin> set es \<Longrightarrow> run p es s = Some s"
proof (induction es)
  case Nil
  then show ?case by simp
next
  case (Cons e es)
  then show ?case
    by (cases e) (auto simp add: moveSnake_over handleKeyDown_over)
qed

text \<open>The score over a tick, and over a run without a reset.\<close>

lemma moveSnake_score:
  assumes "moveSnake p rs s = Some s'"
  shows "score s' = score s \<or> score s' = score s + 1"
proof (cases "gameOver s")
  case True
  with assms show ?thesis by (simp add: moveSnake_over)
next
  case playing: False
  show ?thesis
  proof (cases "snake s")
    case Nil
    with assms playing show ?thesis by (simp add: moveSnake_def)
  next
    case (Cons head rest)
    show ?thesis
    proof (cases "moveHead (direction s) head = food s")
      case True
      from assms show ?thesis
        unfolding moveSnake_eat [OF playing Cons True] by auto
    next
      case False
      from assms show ?thesis
        unfolding moveSnake_plain [OF playing Cons False] by auto
    qed
  qed
qed

lemma handleKeyDown_score: "key \<noteq> ''Enter'' \<Longrightarrow> score (handleKeyDown key s) = score s"
  by (simp add: handleKeyDown_def)

lemma run_score:
  "KeyDown ''Enter'' \<notin> set es \<Longrightarrow> run p es s = Some s' \<Longrightarrow> score s \<le> score s'"
proof (induction es arbitrary: s)
  case Nil
  then show ?case by simp
next
  case (Cons e es)
  from Cons.prems(2) obtain s1 where s1: "fire p e s = Some s1" and r: "run p es s1 = Some s'"
    by (auto split: option.splits)
  have "score s \<le> score s1"
  proof (cases e)
    case (Tick rs)
    with s1 moveSnake_score [of p rs s s1] show ?thesis by auto
  next
    case (KeyDown key)
    with s1 Cons.prems(1) show ?thesis by (auto simp add: handleKeyDown_score)
  qed
  also from Cons.IH [OF _ r] Cons.prems(1) have "score s1 \<le> score s'" by simp
  finally show ?case .
qed

text \<open>Where the food can be: every event keeps it inside a grid that holds the cell (13,10).\<close>

lemma moveSnake_food:
  assumes "moveSnake p rs s = Some s'" and "unitDraws rs"
    and "0 < width p / gridSize p" and "0 < height p / gridSize p" and "inGrid p (food s)"
  shows "inGrid p (food s')"
proof (cases "gameOver s")
  case True
  with assms show ?thesis by (simp add: moveSnake_over)
next
  case playing: False
  show ?thesis
  proof (cases "snake s")
    case Nil
    with assms playing show ?thesis by (simp add: moveSnake_def)
  next
    case (Cons head rest)
    show ?thesis
    proof (cases "moveHead (direction s) head = food s")
      case True
      from assms(1) obtain newFood where "spawnFood p (food s # snake s) rs = Some newFood"
        and "food s' = newFood"
        unfolding moveSnake_eat [OF playing Cons True] by auto
      with assms show ?thesis by (auto intro: spawnFood_inGrid)
    next
      case False
      from assms(1,5) show ?thesis
        unfolding moveSnake_plain [OF playing Cons False] by auto
    qed
  qed
qed

lemma handleKeyDown_food:
  assumes "13 < width p / gridSize p" and "10 < height p / gridSize p" and "inGrid p (food s)"
  shows "inGrid p (food (handleKeyDown key s))"
  using assms by (simp add: handleKeyDown_def initGame_def inGrid_def)

lemma run_food:
  assumes "13 < width p / gridSize p" and "10 < height p / gridSize p"
  shows "list_all unitEvent es \<Longrightarrow> inGrid p (food s) \<Longrightarrow> run p es s = Some s' \<Longrightarrow> inGrid p (food s')"
proof (induction es arbitrary: s)
  case Nil
  then show ?case by simp
next
  case (Cons e es)
  from Cons.prems(3) obtain s1 where s1: "fire p e s = Some s1" and r: "run p es s1 = Some s'"
    by (auto split: option.splits)
  have "inGrid p (food s1)"
  proof (cases e)
    case (Tick rs)
    with s1 Cons.prems(1,2) assms show ?thesis
      by (auto intro: moveSnake_food [where rs = rs and s = s])
  next
    case (KeyDown key)
    with s1 Cons.prems(2) assms show ?thesis
      by (auto intro: handleKeyDown_food)
  qed
  with Cons.IH [OF _ _ r] Cons.prems(1) show ?case by simp
qed







section \<open>The claims\<close>

text \<open>
  C1, as the specification has it: a tick whose new head is outside the grid sets
  \<^verbatim>\<open>gameOver\<close> and leaves snake, food and score as they were. It fails for the snake:
  on the 20 by 20 grid, with the head at (19,10) and direction RIGHT, the tick sets
  \<^verbatim>\<open>gameOver\<close> and commits the snake (20,10), (19,10), (18,10).
\<close>

theorem wall_collision_snake_moves:
  "\<not> gameOver \<lparr>snake = [\<lparr>x = 19, y = 10\<rparr>, \<lparr>x = 18, y = 10\<rparr>, \<lparr>x = 17, y = 10\<rparr>],
      food = \<lparr>x = 13, y = 10\<rparr>, direction = RIGHT, score = 0, gameOver = False\<rparr> \<and>
   \<not> inGrid defaultProps (moveHead RIGHT \<lparr>x = 19, y = 10\<rparr>) \<and>
   moveSnake defaultProps []
     \<lparr>snake = [\<lparr>x = 19, y = 10\<rparr>, \<lparr>x = 18, y = 10\<rparr>, \<lparr>x = 17, y = 10\<rparr>],
      food = \<lparr>x = 13, y = 10\<rparr>, direction = RIGHT, score = 0, gameOver = False\<rparr>
   = Some \<lparr>snake = [\<lparr>x = 20, y = 10\<rparr>, \<lparr>x = 19, y = 10\<rparr>, \<lparr>x = 18, y = 10\<rparr>],
      food = \<lparr>x = 13, y = 10\<rparr>, direction = RIGHT, score = 0, gameOver = True\<rparr> \<and>
   map_option snake (moveSnake defaultProps []
     \<lparr>snake = [\<lparr>x = 19, y = 10\<rparr>, \<lparr>x = 18, y = 10\<rparr>, \<lparr>x = 17, y = 10\<rparr>],
      food = \<lparr>x = 13, y = 10\<rparr>, direction = RIGHT, score = 0, gameOver = False\<rparr>)
   \<noteq> Some [\<lparr>x = 19, y = 10\<rparr>, \<lparr>x = 18, y = 10\<rparr>, \<lparr>x = 17, y = 10\<rparr>]"
  by (simp add: moveSnake_def moveHead_def checkCollision_def defaultProps_def inGrid_def)

text \<open>
  C1, amended: in every state with \<^verbatim>\<open>gameOver\<close> false and the food inside the grid, a tick
  whose new head is outside the grid returns, sets \<^verbatim>\<open>gameOver\<close>, leaves food, score and
  direction as they were, and commits the moved snake: the new head in front of the old
  snake without its last segment.
\<close>

theorem wall_collision:
  assumes "\<not> gameOver s" and "snake s = head # rest"
    and "\<not> inGrid p (moveHead (direction s) head)" and "inGrid p (food s)"
  shows "moveSnake p rs s =
    Some (s\<lparr>gameOver := True, snake := moveHead (direction s) head # butlast (snake s)\<rparr>)"
proof -
  from assms(3,4) have "moveHead (direction s) head \<noteq> food s" by auto
  from moveSnake_plain [OF assms(1,2) this] assms(3) show ?thesis by simp
qed

theorem wall_collision_witness:
  "moveSnake defaultProps [(0, 0)]
     \<lparr>snake = [\<lparr>x = 19, y = 10\<rparr>, \<lparr>x = 18, y = 10\<rparr>, \<lparr>x = 17, y = 10\<rparr>],
      food = \<lparr>x = 13, y = 10\<rparr>, direction = RIGHT, score = 0, gameOver = False\<rparr>
   = Some \<lparr>snake = [\<lparr>x = 20, y = 10\<rparr>, \<lparr>x = 19, y = 10\<rparr>, \<lparr>x = 18, y = 10\<rparr>],
      food = \<lparr>x = 13, y = 10\<rparr>, direction = RIGHT, score = 0, gameOver = True\<rparr>"
  using wall_collision [of
      "\<lparr>snake = [\<lparr>x = 19, y = 10\<rparr>, \<lparr>x = 18, y = 10\<rparr>, \<lparr>x = 17, y = 10\<rparr>],
        food = \<lparr>x = 13, y = 10\<rparr>, direction = RIGHT, score = 0, gameOver = False\<rparr>"
      "\<lparr>x = 19, y = 10\<rparr>" "[\<lparr>x = 18, y = 10\<rparr>, \<lparr>x = 17, y = 10\<rparr>]" defaultProps "[(0, 0)]"]
  by (simp add: moveHead_def defaultProps_def inGrid_def)

text \<open>
  C2, as the specification has it: a new head on any segment of the snake before the
  tick, the tail cell about to be vacated included, ends the game. It fails for that
  tail cell: the snake (5,5), (5,6), (6,6), (6,5) turning RIGHT moves its head onto the
  cell of its last segment, and the game goes on.
\<close>

theorem vacated_tail_no_collision:
  "moveHead RIGHT \<lparr>x = 5, y = 5\<rparr>
     \<in> set [\<lparr>x = 5, y = 5\<rparr>, \<lparr>x = 5, y = 6\<rparr>, \<lparr>x = 6, y = 6\<rparr>, \<lparr>x = 6, y = 5\<rparr>] \<and>
   moveSnake defaultProps []
     \<lparr>snake = [\<lparr>x = 5, y = 5\<rparr>, \<lparr>x = 5, y = 6\<rparr>, \<lparr>x = 6, y = 6\<rparr>, \<lparr>x = 6, y = 5\<rparr>],
      food = \<lparr>x = 0, y = 0\<rparr>, direction = RIGHT, score = 1, gameOver = False\<rparr>
   = Some \<lparr>snake = [\<lparr>x = 6, y = 5\<rparr>, \<lparr>x = 5, y = 5\<rparr>, \<lparr>x = 5, y = 6\<rparr>, \<lparr>x = 6, y = 6\<rparr>],
      food = \<lparr>x = 0, y = 0\<rparr>, direction = RIGHT, score = 1, gameOver = False\<rparr>"
  by (simp add: moveSnake_def moveHead_def checkCollision_def defaultProps_def)

text \<open>
  C2, amended: the collision test sees the snake after the tick's growth or shrink, the new
  head excepted. In a state with \<^verbatim>\<open>gameOver\<close> false, a tick that eats no food returns
  and ends the game exactly when the new head is outside the grid or on a segment of the
  old snake other than its last; a tick that eats food, once \<^verbatim>\<open>spawnFood\<close> returns,
  ends the game exactly when the new head is outside the grid or on any segment of the
  old snake.
\<close>

theorem self_collision:
  assumes "\<not> gameOver s" and "snake s = head # rest"
  shows "(moveHead (direction s) head \<noteq> food s \<longrightarrow>
            (\<exists>s'. moveSnake p rs s = Some s' \<and>
               (gameOver s' \<longleftrightarrow> \<not> inGrid p (moveHead (direction s) head) \<or>
                                moveHead (direction s) head \<in> set (butlast (snake s))))) \<and>
         (moveHead (direction s) head = food s \<longrightarrow>
            (\<forall>newFood. spawnFood p (moveHead (direction s) head # snake s) rs = Some newFood \<longrightarrow>
               (\<exists>s'. moveSnake p rs s = Some s' \<and>
                  (gameOver s' \<longleftrightarrow> \<not> inGrid p (moveHead (direction s) head) \<or>
                                   moveHead (direction s) head \<in> set (snake s)))))"
proof (cases "moveHead (direction s) head = food s")
  case True
  show ?thesis
    unfolding moveSnake_eat [OF assms True] using True by auto
next
  case False
  show ?thesis
    unfolding moveSnake_plain [OF assms False] using False by simp
qed

theorem self_collision_witness:
  "(\<exists>s'. moveSnake defaultProps []
      \<lparr>snake = [\<lparr>x = 5, y = 5\<rparr>, \<lparr>x = 5, y = 6\<rparr>, \<lparr>x = 6, y = 6\<rparr>, \<lparr>x = 6, y = 5\<rparr>, \<lparr>x = 7, y = 5\<rparr>],
       food = \<lparr>x = 0, y = 0\<rparr>, direction = RIGHT, score = 2, gameOver = False\<rparr> = Some s' \<and> gameOver s') \<and>
   (\<exists>s'. moveSnake defaultProps [(0, 0)]
      \<lparr>snake = [\<lparr>x = 5, y = 5\<rparr>, \<lparr>x = 5, y = 6\<rparr>, \<lparr>x = 6, y = 6\<rparr>],
       food = \<lparr>x = 6, y = 5\<rparr>, direction = RIGHT, score = 0, gameOver = False\<rparr> = Some s' \<and> \<not> gameOver s')"
  using self_collision [of
      "\<lparr>snake = [\<lparr>x = 5, y = 5\<rparr>, \<lparr>x = 5, y = 6\<rparr>, \<lparr>x = 6, y = 6\<rparr>, \<lparr>x = 6, y = 5\<rparr>, \<lparr>x = 7, y = 5\<rparr>],
        food = \<lparr>x = 0, y = 0\<rparr>, direction = RIGHT, score = 2, gameOver = False\<rparr>"
      "\<lparr>x = 5, y = 5\<rparr>" "[\<lparr>x = 5, y = 6\<rparr>, \<lparr>x = 6, y = 6\<rparr>, \<lparr>x = 6, y = 5\<rparr>, \<lparr>x = 7, y = 5\<rparr>]" defaultProps "[]"]
    self_collision [of
      "\<lparr>snake = [\<lparr>x = 5, y = 5\<rparr>, \<lparr>x = 5, y = 6\<rparr>, \<lparr>x = 6, y = 6\<rparr>],
        food = \<lparr>x = 6, y = 5\<rparr>, direction = RIGHT, score = 0, gameOver = False\<rparr>"
      "\<lparr>x = 5, y = 5\<rparr>" "[\<lparr>x = 5, y = 6\<rparr>, \<lparr>x = 6, y = 6\<rparr>]" defaultProps "[(0, 0)]"]
  by (simp add: moveHead_def defaultProps_def inGrid_def)

text \<open>
  C3: the new head is the old head moved by one cell in the current direction (UP: y - 1,
  DOWN: y + 1, LEFT: x - 1, RIGHT: x + 1, the other component kept). In a state with
  \<^verbatim>\<open>gameOver\<close> false, a tick that eats no food returns with the new head in front of the
  old snake without its last segment, so with the same length (with or without a
  collision); a tick that eats food, once \<^verbatim>\<open>spawnFood\<close> returns, has the new head in
  front of the whole old snake: one segment more.
\<close>

theorem movement:
  assumes "\<not> gameOver s" and "snake s = head # rest"
  shows "x (moveHead UP head) = x head \<and> y (moveHead UP head) = y head - 1 \<and>
         x (moveHead DOWN head) = x head \<and> y (moveHead DOWN head) = y head + 1 \<and>
         x (moveHead LEFT head) = x head - 1 \<and> y (moveHead LEFT head) = y head \<and>
         x (moveHead RIGHT head) = x head + 1 \<and> y (moveHead RIGHT head) = y head \<and>
         (moveHead (direction s) head \<noteq> food s \<longrightarrow>
            (\<exists>s'. moveSnake p rs s = Some s' \<and>
               snake s' = moveHead (direction s) head # butlast (snake s) \<and>
               length (snake s') = length (snake s))) \<and>
         (moveHead (direction s) head = food s \<longrightarrow>
            (\<forall>newFood. spawnFood p (moveHead (direction s) head # snake s) rs = Some newFood \<longrightarrow>
               (\<exists>s'. moveSnake p rs s = Some s' \<and>
                  snake s' = moveHead (direction s) head # snake s \<and>
                  length (snake s') = length (snake s) + 1)))"
proof -
  have moves: "x (moveHead UP head) = x head \<and> y (moveHead UP head) = y head - 1 \<and>
         x (moveHead DOWN head) = x head \<and> y (moveHead DOWN head) = y head + 1 \<and>
         x (moveHead LEFT head) = x head - 1 \<and> y (moveHead LEFT head) = y head \<and>
         x (moveHead RIGHT head) = x head + 1 \<and> y (moveHead RIGHT head) = y head"
    by (simp add: moveHead_def)
  show ?thesis
  proof (cases "moveHead (direction s) head = food s")
    case True
    show ?thesis
      unfolding moveSnake_eat [OF assms True] using True moves by auto
  next
    case False
    show ?thesis
      unfolding moveSnake_plain [OF assms False] using False moves assms(2) by simp
  qed
qed

theorem movement_witness:
  "(\<exists>s'. moveSnake defaultProps [] initialState = Some s' \<and>
      snake s' = [\<lparr>x = 9, y = 10\<rparr>, \<lparr>x = 8, y = 10\<rparr>, \<lparr>x = 7, y = 10\<rparr>]) \<and>
   (\<exists>s'. moveSnake defaultProps [(0, 0)] (initialState\<lparr>food := \<lparr>x = 9, y = 10\<rparr>\<rparr>) = Some s' \<and>
      snake s' = [\<lparr>x = 9, y = 10\<rparr>, \<lparr>x = 8, y = 10\<rparr>, \<lparr>x = 7, y = 10\<rparr>, \<lparr>x = 6, y = 10\<rparr>])"
  using movement [of initialState "\<lparr>x = 8, y = 10\<rparr>" "[\<lparr>x = 7, y = 10\<rparr>, \<lparr>x = 6, y = 10\<rparr>]" defaultProps "[]"]
    movement [of "initialState\<lparr>food := \<lparr>x = 9, y = 10\<rparr>\<rparr>" "\<lparr>x = 8, y = 10\<rparr>"
      "[\<lparr>x = 7, y = 10\<rparr>, \<lparr>x = 6, y = 10\<rparr>]" defaultProps "[(0, 0)]"]
  by (auto simp add: initialState_def moveHead_def defaultProps_def)

text \<open>
  C4: in every state with \<^verbatim>\<open>gameOver\<close> true a tick leaves the whole state (snake, food,
  direction, score, gameOver) as it is, and so does every run of ticks, and every run of
  ticks and key presses without the Enter key; Enter in such a state is \<^verbatim>\<open>initGame\<close>.
\<close>

theorem gameOver_terminal:
  "gameOver s \<Longrightarrow>
     moveSnake p rs s = Some s \<and>
     run p (map Tick rss) s = Some s \<and>
     (KeyDown ''Enter'' \<notin> set es \<longrightarrow> run p es s = Some s) \<and>
     handleKeyDown ''Enter'' s = initGame s"
proof -
  assume over: "gameOver s"
  have "KeyDown ''Enter'' \<notin> set (map Tick rss)" by auto
  with over have "run p (map Tick rss) s = Some s" by (rule run_over)
  with over show ?thesis
    by (simp add: moveSnake_over run_over handleKeyDown_def)
qed

theorem gameOver_terminal_witness:
  "gameOver (initialState\<lparr>gameOver := True\<rparr>) \<and>
   moveSnake defaultProps [] (initialState\<lparr>gameOver := True\<rparr>) = Some (initialState\<lparr>gameOver := True\<rparr>) \<and>
   run defaultProps (map Tick [[], [(0, 0)]]) (initialState\<lparr>gameOver := True\<rparr>) = Some (initialState\<lparr>gameOver := True\<rparr>) \<and>
   run defaultProps [Tick [], KeyDown ''ArrowUp'', Tick []] (initialState\<lparr>gameOver := True\<rparr>)
     = Some (initialState\<lparr>gameOver := True\<rparr>)"
  using gameOver_terminal [of "initialState\<lparr>gameOver := True\<rparr>" defaultProps "[]" "[[], [(0, 0)]]"
      "[Tick [], KeyDown ''ArrowUp'', Tick []]"]
  by (simp del: run.simps)

text \<open>
  C5: \<^verbatim>\<open>initGame\<close> gives the same state from every state: snake (8,10), (7,10), (6,10)
  with the head first, direction RIGHT, food (13,10), score 0, gameOver false.
\<close>

theorem initGame_deterministic:
  "initGame s =
     \<lparr>snake = [\<lparr>x = 8, y = 10\<rparr>, \<lparr>x = 7, y = 10\<rparr>, \<lparr>x = 6, y = 10\<rparr>],
      food = \<lparr>x = 13, y = 10\<rparr>, direction = RIGHT, score = 0, gameOver = False\<rparr>
   \<and> initGame s = initGame s'
   \<and> initGame s = initialState"
  by (simp add: initGame_def initialState_def)




text \<open>
  C7: the coordinate \<^verbatim>\<open>spawnFood\<close> returns is on no segment of the snake it was given: it
  is the first candidate of the draws that is on no segment, every candidate before it
  being rejected. A tick that eats passes the grown snake, so the food it commits is on
  no segment of the snake it commits.
\<close>

theorem respawn_off_snake:
  "(spawnFood p snakePositions rs = Some newFood \<longrightarrow> newFood \<notin> set snakePositions) \<and>
   spawnFood p snakePositions rs =
     find (\<lambda>c. c \<notin> set snakePositions)
       (map (\<lambda>(r1, r2). \<lparr>x = \<lfloor>r1 * (width p / gridSize p)\<rfloor>, y = \<lfloor>r2 * (height p / gridSize p)\<rfloor>\<rparr>) rs) \<and>
   (\<not> gameOver s \<and> snake s = head # rest \<and> moveHead (direction s) head = food s \<and>
    moveSnake p rs s = Some s' \<longrightarrow>
      snake s' = moveHead (direction s) head # snake s \<and>
      spawnFood p (snake s') rs = Some (food s') \<and>
      food s' \<notin> set (snake s'))"
proof (intro conjI impI)
  show "spawnFood p snakePositions rs = Some newFood \<Longrightarrow> newFood \<notin> set snakePositions"
    by (rule spawnFood_free)
  show "spawnFood p snakePositions rs =
     find (\<lambda>c. c \<notin> set snakePositions)
       (map (\<lambda>(r1, r2). \<lparr>x = \<lfloor>r1 * (width p / gridSize p)\<rfloor>, y = \<lfloor>r2 * (height p / gridSize p)\<rfloor>\<rparr>) rs)"
    by (rule spawnFood_find)
next
  assume a: "\<not> gameOver s \<and> snake s = head # rest \<and> moveHead (direction s) head = food s \<and>
    moveSnake p rs s = Some s'"
  then have playing: "\<not> gameOver s" and sn: "snake s = head # rest"
    and eat: "moveHead (direction s) head = food s" and res: "moveSnake p rs s = Some s'"
    by simp_all
  from res obtain nf where nf: "spawnFood p (food s # snake s) rs = Some nf"
    and s': "s' = s\<lparr>score := score s + 1, food := nf,
                     gameOver := \<not> inGrid p (food s) \<or> food s \<in> set (snake s),
                     snake := food s # snake s\<rparr>"
    unfolding moveSnake_eat [OF playing sn eat] by auto
  from s' eat show "snake s' = moveHead (direction s) head # snake s" by simp
  from s' nf show "spawnFood p (snake s') rs = Some (food s')" by simp
  from spawnFood_free [OF nf] s' show "food s' \<notin> set (snake s')" by simp
qed

theorem respawn_off_snake_witness:
  "spawnFood defaultProps [\<lparr>x = 13, y = 10\<rparr>, \<lparr>x = 12, y = 10\<rparr>, \<lparr>x = 11, y = 10\<rparr>, \<lparr>x = 10, y = 10\<rparr>]
      [(13 / 20, 1 / 2), (3 / 5, 1 / 2), (1 / 4, 3 / 4)] = Some \<lparr>x = 5, y = 15\<rparr> \<and>
   \<lparr>x = 5, y = 15\<rparr> \<notin> set [\<lparr>x = 13, y = 10\<rparr>, \<lparr>x = 12, y = 10\<rparr>, \<lparr>x = 11, y = 10\<rparr>, \<lparr>x = 10, y = 10\<rparr>] \<and>
   moveSnake defaultProps [(13 / 20, 1 / 2), (3 / 5, 1 / 2), (1 / 4, 3 / 4)]
     \<lparr>snake = [\<lparr>x = 12, y = 10\<rparr>, \<lparr>x = 11, y = 10\<rparr>, \<lparr>x = 10, y = 10\<rparr>],
      food = \<lparr>x = 13, y = 10\<rparr>, direction = RIGHT, score = 0, gameOver = False\<rparr>
   = Some \<lparr>snake = [\<lparr>x = 13, y = 10\<rparr>, \<lparr>x = 12, y = 10\<rparr>, \<lparr>x = 11, y = 10\<rparr>, \<lparr>x = 10, y = 10\<rparr>],
      food = \<lparr>x = 5, y = 15\<rparr>, direction = RIGHT, score = 1, gameOver = False\<rparr>"
  using respawn_off_snake [of defaultProps
      "[\<lparr>x = 13, y = 10\<rparr>, \<lparr>x = 12, y = 10\<rparr>, \<lparr>x = 11, y = 10\<rparr>, \<lparr>x = 10, y = 10\<rparr>]"
      "[(13 / 20, 1 / 2), (3 / 5, 1 / 2), (1 / 4, 3 / 4)]" "\<lparr>x = 5, y = 15\<rparr>"
      "\<lparr>snake = [\<lparr>x = 12, y = 10\<rparr>, \<lparr>x = 11, y = 10\<rparr>, \<lparr>x = 10, y = 10\<rparr>],
        food = \<lparr>x = 13, y = 10\<rparr>, direction = RIGHT, score = 0, gameOver = False\<rparr>"
      "\<lparr>x = 12, y = 10\<rparr>" "[\<lparr>x = 11, y = 10\<rparr>, \<lparr>x = 10, y = 10\<rparr>]"
      "\<lparr>snake = [\<lparr>x = 13, y = 10\<rparr>, \<lparr>x = 12, y = 10\<rparr>, \<lparr>x = 11, y = 10\<rparr>, \<lparr>x = 10, y = 10\<rparr>],
        food = \<lparr>x = 5, y = 15\<rparr>, direction = RIGHT, score = 1, gameOver = False\<rparr>"]
  by (simp add: moveSnake_def moveHead_def checkCollision_def defaultProps_def)

text \<open>
  C8: over every run of ticks (and of ticks and key presses other than Enter) the score
  does not go down. One tick in a state with \<^verbatim>\<open>gameOver\<close> false raises it by exactly 1
  if and only if the new head is the food coordinate, and leaves it unchanged otherwise;
  a tick in a state with \<^verbatim>\<open>gameOver\<close> true leaves it unchanged.
\<close>

theorem score_monotone:
  "(run p (map Tick rss) s = Some s' \<longrightarrow> score s \<le> score s') \<and>
   (KeyDown ''Enter'' \<notin> set es \<and> run p es s = Some s' \<longrightarrow> score s \<le> score s') \<and>
   (\<not> gameOver s \<and> snake s = head # rest \<and> moveSnake p rs s = Some s1 \<longrightarrow>
      (score s1 = score s + 1 \<longleftrightarrow> moveHead (direction s) head = food s) \<and>
      (moveHead (direction s) head \<noteq> food s \<longrightarrow> score s1 = score s)) \<and>
   (gameOver s \<longrightarrow> map_option score (moveSnake p rs s) = Some (score s))"
proof (intro conjI impI)
  have "KeyDown ''Enter'' \<notin> set (map Tick rss)" by auto
  then show "run p (map Tick rss) s = Some s' \<Longrightarrow> score s \<le> score s'"
    by (rule run_score)
  show "KeyDown ''Enter'' \<notin> set es \<and> run p es s = Some s' \<Longrightarrow> score s \<le> score s'"
    by (auto intro: run_score)
  show "gameOver s \<Longrightarrow> map_option score (moveSnake p rs s) = Some (score s)"
    by (simp add: moveSnake_over)
next
  assume a: "\<not> gameOver s \<and> snake s = head # rest \<and> moveSnake p rs s = Some s1"
  then have playing: "\<not> gameOver s" and sn: "snake s = head # rest"
    and res: "moveSnake p rs s = Some s1" by simp_all
  show "score s1 = score s + 1 \<longleftrightarrow> moveHead (direction s) head = food s"
  proof (cases "moveHead (direction s) head = food s")
    case True
    from res show ?thesis unfolding moveSnake_eat [OF playing sn True] using True by auto
  next
    case False
    from res show ?thesis unfolding moveSnake_plain [OF playing sn False] using False by auto
  qed
  show "score s1 = score s" if ne: "moveHead (direction s) head \<noteq> food s"
    using res unfolding moveSnake_plain [OF playing sn ne] by auto
qed

theorem score_monotone_witness:
  "run defaultProps (map Tick [[], [], [], [], [(0, 0)]]) initialState
     = Some \<lparr>snake = [\<lparr>x = 13, y = 10\<rparr>, \<lparr>x = 12, y = 10\<rparr>, \<lparr>x = 11, y = 10\<rparr>, \<lparr>x = 10, y = 10\<rparr>],
        food = \<lparr>x = 0, y = 0\<rparr>, direction = RIGHT, score = 1, gameOver = False\<rparr> \<and>
   score initialState \<le> 1 \<and>
   moveSnake defaultProps [] initialState
     = Some \<lparr>snake = [\<lparr>x = 9, y = 10\<rparr>, \<lparr>x = 8, y = 10\<rparr>, \<lparr>x = 7, y = 10\<rparr>],
        food = \<lparr>x = 13, y = 10\<rparr>, direction = RIGHT, score = 0, gameOver = False\<rparr> \<and>
   moveHead (direction initialState) \<lparr>x = 8, y = 10\<rparr> \<noteq> food initialState \<and>
   moveSnake defaultProps [(0, 0)]
     \<lparr>snake = [\<lparr>x = 12, y = 10\<rparr>, \<lparr>x = 11, y = 10\<rparr>, \<lparr>x = 10, y = 10\<rparr>],
      food = \<lparr>x = 13, y = 10\<rparr>, direction = RIGHT, score = 0, gameOver = False\<rparr>
     = Some \<lparr>snake = [\<lparr>x = 13, y = 10\<rparr>, \<lparr>x = 12, y = 10\<rparr>, \<lparr>x = 11, y = 10\<rparr>, \<lparr>x = 10, y = 10\<rparr>],
        food = \<lparr>x = 0, y = 0\<rparr>, direction = RIGHT, score = 1, gameOver = False\<rparr> \<and>
   moveHead RIGHT \<lparr>x = 12, y = 10\<rparr> = \<lparr>x = 13, y = 10\<rparr>"
  using score_monotone [where p = defaultProps and rss = "[[], [], [], [], [(0, 0)]]" and s = initialState
      and s' = "\<lparr>snake = [\<lparr>x = 13, y = 10\<rparr>, \<lparr>x = 12, y = 10\<rparr>, \<lparr>x = 11, y = 10\<rparr>, \<lparr>x = 10, y = 10\<rparr>],
        food = \<lparr>x = 0, y = 0\<rparr>, direction = RIGHT, score = 1, gameOver = False\<rparr>"
      and es = "[]" and head = "\<lparr>x = 8, y = 10\<rparr>" and rest = "[\<lparr>x = 7, y = 10\<rparr>, \<lparr>x = 6, y = 10\<rparr>]"
      and rs = "[]"
      and ?s1.0 = "\<lparr>snake = [\<lparr>x = 9, y = 10\<rparr>, \<lparr>x = 8, y = 10\<rparr>, \<lparr>x = 7, y = 10\<rparr>],
        food = \<lparr>x = 13, y = 10\<rparr>, direction = RIGHT, score = 0, gameOver = False\<rparr>"]
    score_monotone [where p = defaultProps and rss = "[]"
      and s = "\<lparr>snake = [\<lparr>x = 12, y = 10\<rparr>, \<lparr>x = 11, y = 10\<rparr>, \<lparr>x = 10, y = 10\<rparr>],
        food = \<lparr>x = 13, y = 10\<rparr>, direction = RIGHT, score = 0, gameOver = False\<rparr>"
      and s' = "\<lparr>snake = [\<lparr>x = 12, y = 10\<rparr>, \<lparr>x = 11, y = 10\<rparr>, \<lparr>x = 10, y = 10\<rparr>],
        food = \<lparr>x = 13, y = 10\<rparr>, direction = RIGHT, score = 0, gameOver = False\<rparr>"
      and es = "[]" and head = "\<lparr>x = 12, y = 10\<rparr>" and rest = "[\<lparr>x = 11, y = 10\<rparr>, \<lparr>x = 10, y = 10\<rparr>]"
      and rs = "[(0, 0)]"
      and ?s1.0 = "\<lparr>snake = [\<lparr>x = 13, y = 10\<rparr>, \<lparr>x = 12, y = 10\<rparr>, \<lparr>x = 11, y = 10\<rparr>, \<lparr>x = 10, y = 10\<rparr>],
        food = \<lparr>x = 0, y = 0\<rparr>, direction = RIGHT, score = 1, gameOver = False\<rparr>"]
  by (simp add: moveSnake_def moveHead_def checkCollision_def defaultProps_def initialState_def)

text \<open>
  C9: with the props 400, 400, 20 the grid is 20 by 20, and from snake (8,10), (7,10),
  (6,10), direction RIGHT, food (13,10), score 0, gameOver false, one tick gives snake
  (9,10), (8,10), (7,10), the same food, score 0 and gameOver false, whatever the draws.
\<close>

theorem first_tick_example:
  "width defaultProps / gridSize defaultProps = 20 \<and>
   height defaultProps / gridSize defaultProps = 20 \<and>
   moveSnake defaultProps rs
     \<lparr>snake = [\<lparr>x = 8, y = 10\<rparr>, \<lparr>x = 7, y = 10\<rparr>, \<lparr>x = 6, y = 10\<rparr>],
      food = \<lparr>x = 13, y = 10\<rparr>, direction = RIGHT, score = 0, gameOver = False\<rparr>
   = Some \<lparr>snake = [\<lparr>x = 9, y = 10\<rparr>, \<lparr>x = 8, y = 10\<rparr>, \<lparr>x = 7, y = 10\<rparr>],
      food = \<lparr>x = 13, y = 10\<rparr>, direction = RIGHT, score = 0, gameOver = False\<rparr>"
  by (simp add: moveSnake_def moveHead_def checkCollision_def defaultProps_def)

text \<open>
  C10, as the claim has it: the food is always inside the grid, the food (13,10) of the
  initial and the reset state included, so a tick into the wall never scores. It fails
  on a grid of 13 columns (width 260, gridSize 20): the cell (13,10) is outside, four
  ticks take the head to (12,10), and the fifth tick is into the wall, onto the food: it
  sets \<^verbatim>\<open>gameOver\<close>, raises the score to 1 and respawns the food.
\<close>

theorem food_outside_small_grid:
  "\<not> inGrid \<lparr>width = 260, height = 400, gridSize = 20\<rparr> (food (initGame initialState)) \<and>
   run \<lparr>width = 260, height = 400, gridSize = 20\<rparr> [Tick [], Tick [], Tick [], Tick []] initialState
     = Some \<lparr>snake = [\<lparr>x = 12, y = 10\<rparr>, \<lparr>x = 11, y = 10\<rparr>, \<lparr>x = 10, y = 10\<rparr>],
        food = \<lparr>x = 13, y = 10\<rparr>, direction = RIGHT, score = 0, gameOver = False\<rparr> \<and>
   \<not> inGrid \<lparr>width = 260, height = 400, gridSize = 20\<rparr> (moveHead RIGHT \<lparr>x = 12, y = 10\<rparr>) \<and>
   moveSnake \<lparr>width = 260, height = 400, gridSize = 20\<rparr> [(0, 0)]
     \<lparr>snake = [\<lparr>x = 12, y = 10\<rparr>, \<lparr>x = 11, y = 10\<rparr>, \<lparr>x = 10, y = 10\<rparr>],
      food = \<lparr>x = 13, y = 10\<rparr>, direction = RIGHT, score = 0, gameOver = False\<rparr>
     = Some \<lparr>snake = [\<lparr>x = 13, y = 10\<rparr>, \<lparr>x = 12, y = 10\<rparr>, \<lparr>x = 11, y = 10\<rparr>, \<lparr>x = 10, y = 10\<rparr>],
        food = \<lparr>x = 0, y = 0\<rparr>, direction = RIGHT, score = 1, gameOver = True\<rparr>"
  by (simp add: moveSnake_def moveHead_def checkCollision_def initialState_def initGame_def inGrid_def)

text \<open>
  C10, amended: on a grid of more than 13 columns and more than 10 rows (such as the 20 by
  20 grid of the App) the food is always inside the grid: the food (13,10) of the initial
  and of the reset state, every coordinate \<^verbatim>\<open>spawnFood\<close> returns from draws in [0, 1),
  and so the food of every state a run of ticks and key presses reaches from the initial
  state. In such a state a new head outside the grid is never the food, and the tick into
  the wall returns with \<^verbatim>\<open>gameOver\<close> set and with the score and the food it had.
\<close>

theorem food_in_grid:
  assumes "13 < width p / gridSize p" and "10 < height p / gridSize p"
  shows "inGrid p (food initialState) \<and> inGrid p (food (initGame s0)) \<and>
         (unitDraws rs \<and> spawnFood p snakePositions rs = Some newFood \<longrightarrow> inGrid p newFood) \<and>
         (list_all unitEvent es \<and> run p es initialState = Some s \<longrightarrow>
            inGrid p (food s) \<and>
            (\<not> gameOver s \<and> snake s = head # rest \<and> \<not> inGrid p (moveHead (direction s) head) \<longrightarrow>
               moveHead (direction s) head \<noteq> food s \<and>
               (\<exists>s'. moveSnake p rs' s = Some s' \<and> gameOver s' \<and> score s' = score s \<and> food s' = food s)))"
proof (intro conjI impI)
  from assms show init: "inGrid p (food initialState)"
    by (simp add: initialState_def inGrid_def)
  from assms show "inGrid p (food (initGame s0))"
    by (simp add: initGame_def inGrid_def)
  from assms have pos: "0 < width p / gridSize p" "0 < height p / gridSize p" by simp_all
  show "inGrid p newFood" if "unitDraws rs \<and> spawnFood p snakePositions rs = Some newFood"
    using that pos by (auto intro: spawnFood_inGrid)
  assume r: "list_all unitEvent es \<and> run p es initialState = Some s"
  with assms init show inv: "inGrid p (food s)"
    by (auto intro: run_food)
  assume w: "\<not> gameOver s \<and> snake s = head # rest \<and> \<not> inGrid p (moveHead (direction s) head)"
  with inv show ne: "moveHead (direction s) head \<noteq> food s" by auto
  from w have "\<not> gameOver s" and "snake s = head # rest" by simp_all
  from moveSnake_plain [OF this ne] w
  show "\<exists>s'. moveSnake p rs' s = Some s' \<and> gameOver s' \<and> score s' = score s \<and> food s' = food s"
    by simp
qed

theorem food_in_grid_witness:
  "inGrid defaultProps \<lparr>x = 13, y = 10\<rparr> \<and>
   inGrid defaultProps \<lparr>x = 5, y = 15\<rparr> \<and>
   (\<exists>s'. moveSnake defaultProps []
      \<lparr>snake = [\<lparr>x = 8, y = 0\<rparr>, \<lparr>x = 8, y = 1\<rparr>, \<lparr>x = 8, y = 2\<rparr>],
       food = \<lparr>x = 13, y = 10\<rparr>, direction = UP, score = 0, gameOver = False\<rparr> = Some s' \<and>
      gameOver s' \<and> score s' = 0 \<and> food s' = \<lparr>x = 13, y = 10\<rparr>)"
  using food_in_grid [where p = defaultProps and s0 = initialState and rs = "[(1 / 4, 3 / 4)]"
      and snakePositions = "[\<lparr>x = 8, y = 10\<rparr>]" and newFood = "\<lparr>x = 5, y = 15\<rparr>"
      and es = "[KeyDown ''ArrowUp'', Tick [], Tick [], Tick [], Tick [], Tick [], Tick [],
                 Tick [], Tick [], Tick [], Tick []]"
      and s = "\<lparr>snake = [\<lparr>x = 8, y = 0\<rparr>, \<lparr>x = 8, y = 1\<rparr>, \<lparr>x = 8, y = 2\<rparr>],
        food = \<lparr>x = 13, y = 10\<rparr>, direction = UP, score = 0, gameOver = False\<rparr>"
      and head = "\<lparr>x = 8, y = 0\<rparr>" and rest = "[\<lparr>x = 8, y = 1\<rparr>, \<lparr>x = 8, y = 2\<rparr>]" and rs' = "[]"]
  by (simp add: moveSnake_def moveHead_def checkCollision_def defaultProps_def initialState_def
      initGame_def inGrid_def handleKeyDown_def unitDraws_def)

end
